theory Spec2Isabelle
  imports Complex_Main "HOL-Library.Word" "HOL-Library.Log_Nat"
begin

unbundle bit_operations_syntax

section \<open>Python numbers\<close>

text \<open>
  An amount is a Python number: an \<^verbatim>\<open>int\<close> (unbounded, hence \<^typ>\<open>int\<close>) or a
  \<^verbatim>\<open>float\<close>. A float is an IEEE 754 binary64 value, modelled by its 64 bits: the sign
  (bit 63), the biased exponent (bits 62 to 52) and the fraction (bits 51 to 0).
\<close>

type_synonym double = "64 word"

datatype pynum = PInt int | PFloat double

definition fsign :: "double \<Rightarrow> bool" where
  "fsign w = bit w 63"

definition fexp :: "double \<Rightarrow> int" where
  "fexp w = uint (take_bit 11 (drop_bit 52 w))"

definition ffrac :: "double \<Rightarrow> int" where
  "ffrac w = uint (take_bit 52 w)"

definition make_double :: "bool \<Rightarrow> int \<Rightarrow> int \<Rightarrow> double" where
  "make_double s e f = word_of_int ((if s then 2 ^ 63 else 0) + e * 2 ^ 52 + f)"

definition is_nan :: "double \<Rightarrow> bool" where
  "is_nan w = (fexp w = 2047 \<and> ffrac w \<noteq> 0)"

definition is_inf :: "double \<Rightarrow> bool" where
  "is_inf w = (fexp w = 2047 \<and> ffrac w = 0)"

text \<open>
  A finite float is \<open>fmant w * 2 ^ fexpo w\<close>: the signed significand (with the hidden
  bit of a normal number) and the exponent of its last bit.
\<close>

definition fmant :: "double \<Rightarrow> int" where
  "fmant w = (let m = (if fexp w = 0 then ffrac w else 2 ^ 52 + ffrac w)
              in if fsign w then - m else m)"

definition fexpo :: "double \<Rightarrow> int" where
  "fexpo w = (if fexp w = 0 then - 1074 else fexp w - 1075)"

definition fval :: "double \<Rightarrow> rat" where
  "fval w = (if 0 \<le> fexpo w then of_int (fmant w) * 2 ^ nat (fexpo w)
             else of_int (fmant w) / 2 ^ nat (- fexpo w))"

text \<open>
  Rounding to nearest, ties to even: \<open>round_half_even m k\<close> is \<open>m / 2 ^ k\<close> rounded to
  an integer; \<open>round_double s m e\<close> is the float nearest to \<open>m * 2 ^ e\<close> (\<open>m > 0\<close>) with
  sign \<open>s\<close>, an infinity when the rounded value is beyond the largest float.
\<close>

definition round_half_even :: "int \<Rightarrow> nat \<Rightarrow> int" where
  "round_half_even m k =
     (if k = 0 then m
      else let q = m div 2 ^ k; r = m mod 2 ^ k; h = 2 ^ (k - 1)
           in if r > h \<or> (r = h \<and> odd q) then q + 1 else q)"

definition round_double :: "bool \<Rightarrow> int \<Rightarrow> int \<Rightarrow> double" where
  "round_double s m e =
     (let e1 = max (e + bitlen m - 53) (- 1074);
          m1 = (if e1 \<le> e then m * 2 ^ nat (e - e1) else round_half_even m (nat (e1 - e)));
          e2 = (if m1 = 2 ^ 53 then e1 + 1 else e1);
          m2 = (if m1 = 2 ^ 53 then 2 ^ 52 else m1)
      in if m2 < 2 ^ 52 then make_double s 0 m2
         else if e2 + 1075 \<ge> 2047 then make_double s 2047 0
         else make_double s (e2 + 1075) (m2 - 2 ^ 52))"

text \<open>
  Every NaN prints as \<^verbatim>\<open>nan\<close>; the sign and payload of a NaN result depend on the
  processor and are not modelled: a NaN result is the quiet NaN below.
\<close>

definition quiet_nan :: double where
  "quiet_nan = make_double False 2047 (2 ^ 51)"

text \<open>\<^verbatim>\<open>x + y\<close> on floats: the exact sum, rounded.\<close>

definition fadd :: "double \<Rightarrow> double \<Rightarrow> double" where
  "fadd x y =
     (if is_nan x \<or> is_nan y then quiet_nan
      else if is_inf x then (if is_inf y \<and> fsign x \<noteq> fsign y then quiet_nan else x)
      else if is_inf y then y
      else let e = min (fexpo x) (fexpo y);
               z = fmant x * 2 ^ nat (fexpo x - e) + fmant y * 2 ^ nat (fexpo y - e)
           in if z = 0 then make_double (fsign x \<and> fsign y) 0 0
              else round_double (z < 0) \<bar>z\<bar> e)"

datatype py_error = KeyError string | TypeError | OverflowError

text \<open>
  The conversion of an \<^verbatim>\<open>int\<close> operand of a mixed sum: correctly rounded, and
  \<^verbatim>\<open>OverflowError\<close> (int too large to convert to float) beyond the largest float.
\<close>

definition int_to_float :: "int \<Rightarrow> py_error + double" where
  "int_to_float n =
     (let w = round_double (n < 0) \<bar>n\<bar> 0 in if is_inf w then Inl OverflowError else Inr w)"

text \<open>\<^verbatim>\<open>a + b\<close> on numbers: exact on two ints, a float sum as soon as one is a float.\<close>

fun num_add :: "pynum \<Rightarrow> pynum \<Rightarrow> py_error + pynum" where
  "num_add (PInt a) (PInt b) = Inr (PInt (a + b))"
| "num_add (PInt a) (PFloat y) =
     (case int_to_float a of Inl e \<Rightarrow> Inl e | Inr x \<Rightarrow> Inr (PFloat (fadd x y)))"
| "num_add (PFloat x) (PInt b) =
     (case int_to_float b of Inl e \<Rightarrow> Inl e | Inr y \<Rightarrow> Inr (PFloat (fadd x y)))"
| "num_add (PFloat x) (PFloat y) = Inr (PFloat (fadd x y))"

text \<open>
  Comparisons of numbers are exact, also between an int and a float: a number is a NaN,
  an infinity (with its sign) or a rational. A comparison with a NaN is false.
\<close>

datatype xnum = XNaN | XInf bool | XFin rat

definition num_class :: "pynum \<Rightarrow> xnum" where
  "num_class n =
     (case n of
        PInt i \<Rightarrow> XFin (of_int i)
      | PFloat w \<Rightarrow> if is_nan w then XNaN else if is_inf w then XInf (fsign w) else XFin (fval w))"

fun xle :: "xnum \<Rightarrow> xnum \<Rightarrow> bool" where
  "xle XNaN y = False"
| "xle x XNaN = False"
| "xle (XInf s) (XInf t) = (s \<or> \<not> t)"
| "xle (XInf s) (XFin q) = s"
| "xle (XFin p) (XInf t) = (\<not> t)"
| "xle (XFin p) (XFin q) = (p \<le> q)"

fun xlt :: "xnum \<Rightarrow> xnum \<Rightarrow> bool" where
  "xlt XNaN y = False"
| "xlt x XNaN = False"
| "xlt (XInf s) (XInf t) = (s \<and> \<not> t)"
| "xlt (XInf s) (XFin q) = s"
| "xlt (XFin p) (XInf t) = (\<not> t)"
| "xlt (XFin p) (XFin q) = (p < q)"

fun xeq :: "xnum \<Rightarrow> xnum \<Rightarrow> bool" where
  "xeq XNaN y = False"
| "xeq x XNaN = False"
| "xeq (XInf s) (XInf t) = (s = t)"
| "xeq (XFin p) (XFin q) = (p = q)"
| "xeq x y = False"

text \<open>\<^verbatim>\<open>a <= b\<close>, \<^verbatim>\<open>a < b\<close>, \<^verbatim>\<open>a >= b\<close> and \<^verbatim>\<open>a == b\<close>.\<close>

definition num_le :: "pynum \<Rightarrow> pynum \<Rightarrow> bool" where
  "num_le a b = xle (num_class a) (num_class b)"

definition num_lt :: "pynum \<Rightarrow> pynum \<Rightarrow> bool" where
  "num_lt a b = xlt (num_class a) (num_class b)"

definition num_ge :: "pynum \<Rightarrow> pynum \<Rightarrow> bool" where
  "num_ge a b = xle (num_class b) (num_class a)"

definition num_eq :: "pynum \<Rightarrow> pynum \<Rightarrow> bool" where
  "num_eq a b = xeq (num_class a) (num_class b)"

section \<open>Data model\<close>

text \<open>
  The service works on Python dictionaries. A transaction is a dictionary read by key
  (\<^verbatim>\<open>tx["category"]\<close>, \<^verbatim>\<open>tx["amount"]\<close>); its values are numbers and strings. A
  dictionary is a finite map from keys to values, and a read of an absent key raises
  \<^verbatim>\<open>KeyError\<close>; adding a string to a number raises \<^verbatim>\<open>TypeError\<close>.
\<close>

datatype pyval = PNum pynum | PStr string

type_synonym pydict = "string \<rightharpoonup> pyval"

definition getitem :: "pydict \<Rightarrow> string \<Rightarrow> py_error + pyval" where
  "getitem d k = (case d k of None \<Rightarrow> Inl (KeyError k) | Some v \<Rightarrow> Inr v)"

text \<open>\<^verbatim>\<open>n += v\<close> for a numeric accumulator \<open>n\<close>.\<close>

definition iadd :: "pynum \<Rightarrow> pyval \<Rightarrow> py_error + pynum" where
  "iadd n v = (case v of PNum m \<Rightarrow> num_add n m | PStr s \<Rightarrow> Inl TypeError)"

text \<open>
  A transaction with an integer amount (\<open>{amount, category, date}\<close>, as in
  \<^verbatim>\<open>mock_data.py\<close>) and the dictionary that holds it.
\<close>

record Transaction =
  amount :: int
  category :: string
  date :: string

definition tx_dict :: "Transaction \<Rightarrow> pydict" where
  "tx_dict t = [''amount'' \<mapsto> PNum (PInt (amount t)),
                ''category'' \<mapsto> PStr (category t),
                ''date'' \<mapsto> PStr (date t)]"

text \<open>The three running sums of the evaluator; they are returned under \<^verbatim>\<open>"debug"\<close>.\<close>

record Sums =
  total_spend :: pynum
  impulse_spend :: pynum
  total_savings :: pynum

record DisciplineResult =
  budget_ok :: bool
  impulse_ok :: bool
  savings_ok :: bool
  discipline_passed :: bool
  debug :: Sums

record ProofRecord =
  proof_id :: string
  discipline_valid :: bool
  timestamp :: string

section \<open>\<^verbatim>\<open>mock_data.py\<close>\<close>

definition USER_BUDGET :: int where
  "USER_BUDGET = 20000"

definition SAVINGS_TARGET :: int where
  "SAVINGS_TARGET = 5000"

definition transactions :: "pydict list" where
  "transactions =
    [[''amount'' \<mapsto> PNum (PInt 3000), ''category'' \<mapsto> PStr ''food'',
      ''date'' \<mapsto> PStr ''2026-01-05''],
     [''amount'' \<mapsto> PNum (PInt 1500), ''category'' \<mapsto> PStr ''shopping'',
      ''date'' \<mapsto> PStr ''2026-01-07''],
     [''amount'' \<mapsto> PNum (PInt 2000), ''category'' \<mapsto> PStr ''travel'',
      ''date'' \<mapsto> PStr ''2026-01-10''],
     [''amount'' \<mapsto> PNum (PInt 5000), ''category'' \<mapsto> PStr ''savings'',
      ''date'' \<mapsto> PStr ''2026-01-12''],
     [''amount'' \<mapsto> PNum (PInt 1200), ''category'' \<mapsto> PStr ''food'',
      ''date'' \<mapsto> PStr ''2026-01-15'']]"

definition PREVIOUS_MONTH_IMPULSE_SPEND :: int where
  "PREVIOUS_MONTH_IMPULSE_SPEND = 4000"

definition IMPULSE_CATEGORIES :: "string set" where
  "IMPULSE_CATEGORIES = {''food'', ''shopping'', ''travel''}"

section \<open>\<^verbatim>\<open>logic.py\<close>\<close>

text \<open>
  \<^verbatim>\<open>c in IMPULSE_CATEGORIES\<close>: the set holds strings, and no number is equal to a
  string.
\<close>

definition in_categories :: "pyval \<Rightarrow> string set \<Rightarrow> bool" where
  "in_categories c cats = (case c of PStr s \<Rightarrow> s \<in> cats | PNum n \<Rightarrow> False)"

text \<open>
  One iteration of the loop of \<^verbatim>\<open>evaluate_discipline\<close>. The set of impulse categories is
  the global \<^verbatim>\<open>IMPULSE_CATEGORIES\<close>, read at each iteration; it is an argument here so
  that the loop can be studied for every value of that global.
\<close>

definition loop_body :: "string set \<Rightarrow> Sums \<Rightarrow> pydict \<Rightarrow> py_error + Sums" where
  "loop_body imp s tx =
    (case getitem tx ''category'' of Inl e \<Rightarrow> Inl e | Inr c \<Rightarrow>
     (case
        (if c = PStr ''savings'' then
           (case getitem tx ''amount'' of Inl e \<Rightarrow> Inl e | Inr a \<Rightarrow>
            (case iadd (total_savings s) a of Inl e \<Rightarrow> Inl e | Inr v \<Rightarrow>
               Inr (s\<lparr>total_savings := v\<rparr>)))
         else
           (case getitem tx ''amount'' of Inl e \<Rightarrow> Inl e | Inr a \<Rightarrow>
            (case iadd (total_spend s) a of Inl e \<Rightarrow> Inl e | Inr v \<Rightarrow>
               Inr (s\<lparr>total_spend := v\<rparr>))))
      of Inl e \<Rightarrow> Inl e | Inr s1 \<Rightarrow>
      (case getitem tx ''category'' of Inl e \<Rightarrow> Inl e | Inr c2 \<Rightarrow>
        (if in_categories c2 imp then
           (case getitem tx ''amount'' of Inl e \<Rightarrow> Inl e | Inr a \<Rightarrow>
            (case iadd (impulse_spend s1) a of Inl e \<Rightarrow> Inl e | Inr v \<Rightarrow>
               Inr (s1\<lparr>impulse_spend := v\<rparr>)))
         else Inr s1))))"

fun loop :: "string set \<Rightarrow> Sums \<Rightarrow> pydict list \<Rightarrow> py_error + Sums" where
  "loop imp s [] = Inr s"
| "loop imp s (tx # txs) =
     (case loop_body imp s tx of Inl e \<Rightarrow> Inl e | Inr s' \<Rightarrow> loop imp s' txs)"

definition evaluate_discipline :: "pydict list \<Rightarrow> py_error + DisciplineResult" where
  "evaluate_discipline txs =
    (case loop IMPULSE_CATEGORIES
            \<lparr>total_spend = PInt 0, impulse_spend = PInt 0, total_savings = PInt 0\<rparr> txs of
       Inl e \<Rightarrow> Inl e
     | Inr s \<Rightarrow>
        (let b_ok = num_le (total_spend s) (PInt USER_BUDGET);
             i_ok = num_lt (impulse_spend s) (PInt PREVIOUS_MONTH_IMPULSE_SPEND);
             s_ok = num_ge (total_savings s) (PInt SAVINGS_TARGET);
             passed = (b_ok \<and> i_ok \<and> s_ok)
         in Inr \<lparr>budget_ok = b_ok, impulse_ok = i_ok, savings_ok = s_ok,
                 discipline_passed = passed, debug = s\<rparr>))"

section \<open>\<^verbatim>\<open>proof.py\<close>\<close>

text \<open>
  \<^verbatim>\<open>uuid.uuid4()\<close> is the random source: its value is a 128-bit integer, an argument of
  the model. \<^verbatim>\<open>.hex\<close> is that integer as 32 lowercase hexadecimal digits, the most
  significant first (\<^verbatim>\<open>'%032x' % self.int\<close>).
\<close>

definition hexdigits :: string where
  "hexdigits = ''0123456789abcdef''"

definition uuid_hex :: "128 word \<Rightarrow> string" where
  "uuid_hex u = map (\<lambda>i. hexdigits ! unat (drop_bit (4 * (31 - i)) u AND 15)) [0..<32]"

text \<open>\<^verbatim>\<open>str.upper()\<close> on single-byte characters: \<open>a\<close>..\<open>z\<close> become \<open>A\<close>..\<open>Z\<close>.\<close>

definition upper_char :: "char \<Rightarrow> char" where
  "upper_char c =
     (let n = (of_char c :: nat) in if 97 \<le> n \<and> n \<le> 122 then char_of (n - 32) else c)"

definition upper :: "string \<Rightarrow> string" where
  "upper s = map upper_char s"

text \<open>
  The clock is the second argument: \<open>now\<close> is the string that
  \<^verbatim>\<open>datetime.utcnow().isoformat()\<close> returns at the call.
\<close>

definition generate_proof :: "128 word \<Rightarrow> string \<Rightarrow> DisciplineResult \<Rightarrow> ProofRecord" where
  "generate_proof u now discipline_result =
     \<lparr>proof_id = ''0x'' @ upper (take 8 (uuid_hex u)),
      discipline_valid = discipline_passed discipline_result,
      timestamp = now\<rparr>"

section \<open>\<^verbatim>\<open>main.py\<close>\<close>

text \<open>The handler of \<^verbatim>\<open>POST /generate-proof\<close>; an exception of the evaluation propagates.\<close>

definition generate :: "128 word \<Rightarrow> string \<Rightarrow> py_error + ProofRecord" where
  "generate u now =
     (case evaluate_discipline transactions of
        Inl e \<Rightarrow> Inl e
      | Inr discipline_result \<Rightarrow> Inr (generate_proof u now discipline_result))"

section \<open>The pattern of a proof identifier\<close>

text \<open>\<^verbatim>\<open>0x\<close> followed by exactly eight characters among \<open>0\<close>..\<open>9\<close> and \<open>A\<close>..\<open>F\<close>.\<close>

definition is_upper_hex :: "char \<Rightarrow> bool" where
  "is_upper_hex c = (c \<in> set ''0123456789ABCDEF'')"

definition matches_proof_id :: "string \<Rightarrow> bool" where
  "matches_proof_id s =
     (length s = 10 \<and> take 2 s = ''0x'' \<and> list_all is_upper_hex (drop 2 s))"

section \<open>The sum of a list of numbers\<close>

text \<open>
  The builtin \<^verbatim>\<open>sum\<close>: the elements are added from the left, starting from the int 0.
  It states what the sum of the amounts of a list of transactions is when amounts are
  floats.
\<close>

fun sum_from :: "pynum \<Rightarrow> pynum list \<Rightarrow> py_error + pynum" where
  "sum_from acc [] = Inr acc"
| "sum_from acc (x # xs) =
     (case num_add acc x of Inl e \<Rightarrow> Inl e | Inr a \<Rightarrow> sum_from a xs)"

definition py_sum :: "pynum list \<Rightarrow> py_error + pynum" where
  "py_sum xs = sum_from (PInt 0) xs"

section \<open>Numbers that are ints\<close>

lemma num_le_PInt: "num_le (PInt a) (PInt b) = (a \<le> b)"
  by (simp add: num_le_def num_class_def)

lemma num_lt_PInt: "num_lt (PInt a) (PInt b) = (a < b)"
  by (simp add: num_lt_def num_class_def)

lemma num_ge_PInt: "num_ge (PInt a) (PInt b) = (b \<le> a)"
  by (simp add: num_ge_def num_class_def)

lemma iadd_PInt: "iadd (PInt a) (PNum (PInt b)) = Inr (PInt (a + b))"
  by (simp add: iadd_def)

lemma sum_from_PInt:
  "sum_from (PInt a) (map PInt xs) = Inr (PInt (a + sum_list xs))"
  by (induction xs arbitrary: a) (simp_all add: add.assoc)

section \<open>The loop on transactions with integer amounts\<close>

lemma getitem_tx_dict_category: "getitem (tx_dict t) ''category'' = Inr (PStr (category t))"
  by (simp add: getitem_def tx_dict_def)

lemma getitem_tx_dict_amount: "getitem (tx_dict t) ''amount'' = Inr (PNum (PInt (amount t)))"
  by (simp add: getitem_def tx_dict_def)

lemma loop_body_tx_dict:
  "loop_body imp \<lparr>total_spend = PInt a, impulse_spend = PInt b, total_savings = PInt c\<rparr>
     (tx_dict t) =
     Inr \<lparr>total_spend = PInt (a + (if category t = ''savings'' then 0 else amount t)),
          impulse_spend = PInt (b + (if category t \<in> imp then amount t else 0)),
          total_savings = PInt (c + (if category t = ''savings'' then amount t else 0))\<rparr>"
  by (simp add: loop_body_def getitem_tx_dict_category getitem_tx_dict_amount iadd_PInt
      in_categories_def)

lemma loop_tx_dict:
  "loop imp \<lparr>total_spend = PInt a, impulse_spend = PInt b, total_savings = PInt c\<rparr>
     (map tx_dict ts) =
     Inr \<lparr>total_spend =
            PInt (a + sum_list (map amount (filter (\<lambda>t. category t \<noteq> ''savings'') ts))),
          impulse_spend =
            PInt (b + sum_list (map amount (filter (\<lambda>t. category t \<in> imp) ts))),
          total_savings =
            PInt (c + sum_list (map amount (filter (\<lambda>t. category t = ''savings'') ts)))\<rparr>"
proof (induction ts arbitrary: a b c)
  case Nil
  show ?case by simp
next
  case (Cons t ts)
  show ?case by (simp add: loop_body_tx_dict Cons.IH)
qed

lemma evaluate_discipline_tx_dict:
  "evaluate_discipline (map tx_dict ts) =
     Inr \<lparr>budget_ok =
            (sum_list (map amount (filter (\<lambda>t. category t \<noteq> ''savings'') ts)) \<le> USER_BUDGET),
          impulse_ok =
            (sum_list (map amount (filter (\<lambda>t. category t \<in> IMPULSE_CATEGORIES) ts))
               < PREVIOUS_MONTH_IMPULSE_SPEND),
          savings_ok =
            (SAVINGS_TARGET \<le> sum_list (map amount (filter (\<lambda>t. category t = ''savings'') ts))),
          discipline_passed =
            (sum_list (map amount (filter (\<lambda>t. category t \<noteq> ''savings'') ts)) \<le> USER_BUDGET \<and>
             sum_list (map amount (filter (\<lambda>t. category t \<in> IMPULSE_CATEGORIES) ts))
               < PREVIOUS_MONTH_IMPULSE_SPEND \<and>
             SAVINGS_TARGET \<le> sum_list (map amount (filter (\<lambda>t. category t = ''savings'') ts))),
          debug =
            \<lparr>total_spend =
               PInt (sum_list (map amount (filter (\<lambda>t. category t \<noteq> ''savings'') ts))),
             impulse_spend =
               PInt (sum_list (map amount (filter (\<lambda>t. category t \<in> IMPULSE_CATEGORIES) ts))),
             total_savings =
               PInt (sum_list (map amount (filter (\<lambda>t. category t = ''savings'') ts)))\<rparr>\<rparr>"
  by (simp add: evaluate_discipline_def loop_tx_dict Let_def num_le_PInt num_lt_PInt num_ge_PInt)

lemma transactions_tx_dict:
  "transactions =
     map tx_dict
       [\<lparr>amount = 3000, category = ''food'', date = ''2026-01-05''\<rparr>,
        \<lparr>amount = 1500, category = ''shopping'', date = ''2026-01-07''\<rparr>,
        \<lparr>amount = 2000, category = ''travel'', date = ''2026-01-10''\<rparr>,
        \<lparr>amount = 5000, category = ''savings'', date = ''2026-01-12''\<rparr>,
        \<lparr>amount = 1200, category = ''food'', date = ''2026-01-15''\<rparr>]"
  by (simp add: transactions_def tx_dict_def)

lemma sum_list_split:
  "sum_list (map amount (filter (\<lambda>t. category t \<noteq> c) ts)) +
   sum_list (map amount (filter (\<lambda>t. category t = c) ts)) = sum_list (map amount ts)"
  by (induction ts) simp_all

lemma impulse_le_spend:
  "\<forall>t\<in>set ts. 0 \<le> amount t \<Longrightarrow>
   sum_list (map amount (filter (\<lambda>t. category t \<in> IMPULSE_CATEGORIES) ts))
     \<le> sum_list (map amount (filter (\<lambda>t. category t \<noteq> ''savings'') ts))"
  by (induction ts) (auto simp: IMPULSE_CATEGORIES_def)

section \<open>The identifier of a proof record\<close>

lemma nibble_less: "unat ((w :: 128 word) AND 15) < 16"
proof -
  have "w AND 15 \<le> 15" by (rule word_and_le1)
  then have "unat (w AND 15) \<le> unat (15 :: 128 word)" by (simp only: word_le_nat_alt)
  then show ?thesis by simp
qed

lemma length_hexdigits: "length hexdigits = 16"
  by (simp add: hexdigits_def)

lemma upper_hexdigits: "list_all (\<lambda>c. is_upper_hex (upper_char c)) hexdigits"
  by code_simp

lemma upper_hexdigit_nth: "n < 16 \<Longrightarrow> is_upper_hex (upper_char (hexdigits ! n))"
  using upper_hexdigits by (simp add: list_all_length length_hexdigits)

lemma take8_uuid_hex:
  "take 8 (uuid_hex u) = map (\<lambda>i. hexdigits ! unat (drop_bit (4 * (31 - i)) u AND 15)) [0..<8]"
  by (simp add: uuid_hex_def take_map)

section \<open>The evaluator\<close>




text \<open>
  C4. On the reference fixture (the \<^verbatim>\<open>transactions\<close> of \<^verbatim>\<open>mock_data.py\<close>: 3000 food,
  1500 shopping, 2000 travel, 5000 savings, 1200 food; budget ceiling 20000, savings
  target 5000, prior impulse spend 4000, impulse categories food, shopping and travel)
  \<^verbatim>\<open>evaluate_discipline\<close> returns \<open>total_spend = 7700\<close>, \<open>impulse_spend = 7700\<close>,
  \<open>total_savings = 5000\<close>, \<open>budget_ok = True\<close>, \<open>impulse_ok = False\<close>,
  \<open>savings_ok = True\<close> and \<open>discipline_passed = False\<close>.
\<close>

theorem evaluate_discipline_fixture:
  "transactions =
     map tx_dict
       [\<lparr>amount = 3000, category = ''food'', date = ''2026-01-05''\<rparr>,
        \<lparr>amount = 1500, category = ''shopping'', date = ''2026-01-07''\<rparr>,
        \<lparr>amount = 2000, category = ''travel'', date = ''2026-01-10''\<rparr>,
        \<lparr>amount = 5000, category = ''savings'', date = ''2026-01-12''\<rparr>,
        \<lparr>amount = 1200, category = ''food'', date = ''2026-01-15''\<rparr>] \<and>
   USER_BUDGET = 20000 \<and> SAVINGS_TARGET = 5000 \<and> PREVIOUS_MONTH_IMPULSE_SPEND = 4000 \<and>
   IMPULSE_CATEGORIES = {''food'', ''shopping'', ''travel''} \<and>
   evaluate_discipline transactions =
     Inr \<lparr>budget_ok = True, impulse_ok = False, savings_ok = True, discipline_passed = False,
          debug = \<lparr>total_spend = PInt 7700, impulse_spend = PInt 7700,
                   total_savings = PInt 5000\<rparr>\<rparr>"
proof -
  note fixture = transactions_tx_dict
  have result: "evaluate_discipline transactions =
     Inr \<lparr>budget_ok = True, impulse_ok = False, savings_ok = True, discipline_passed = False,
          debug = \<lparr>total_spend = PInt 7700, impulse_spend = PInt 7700,
                   total_savings = PInt 5000\<rparr>\<rparr>"
    unfolding fixture evaluate_discipline_tx_dict
    by (simp add: USER_BUDGET_def PREVIOUS_MONTH_IMPULSE_SPEND_def SAVINGS_TARGET_def
        IMPULSE_CATEGORIES_def)
  from fixture result show ?thesis
    by (simp add: USER_BUDGET_def PREVIOUS_MONTH_IMPULSE_SPEND_def SAVINGS_TARGET_def
        IMPULSE_CATEGORIES_def)
qed

text \<open>
  C8. On the empty list \<^verbatim>\<open>evaluate_discipline\<close> returns a result and no error: the three
  sums are 0, \<open>budget_ok\<close> and \<open>impulse_ok\<close> are true (\<open>0 \<le> 20000\<close>, \<open>0 < 4000\<close>),
  \<open>savings_ok\<close> is false (the savings target is 5000), and so is \<open>discipline_passed\<close>.
\<close>

theorem evaluate_discipline_empty:
  "evaluate_discipline [] =
     Inr \<lparr>budget_ok = True, impulse_ok = True, savings_ok = False, discipline_passed = False,
          debug = \<lparr>total_spend = PInt 0, impulse_spend = PInt 0, total_savings = PInt 0\<rparr>\<rparr> \<and>
   USER_BUDGET = 20000 \<and> PREVIOUS_MONTH_IMPULSE_SPEND = 4000 \<and> SAVINGS_TARGET = 5000"
  by (simp add: evaluate_discipline_def USER_BUDGET_def PREVIOUS_MONTH_IMPULSE_SPEND_def
      SAVINGS_TARGET_def num_le_PInt num_lt_PInt num_ge_PInt)

text \<open>
  C5, as amended. On every sequence of transactions whose amounts are integers,
  \<open>total_spend + total_savings\<close> of the result is the sum of the amounts of all the
  transactions.
\<close>

theorem evaluate_discipline_partition:
  "\<exists>r. evaluate_discipline (map tx_dict ts) = Inr r \<and>
     num_add (total_spend (debug r)) (total_savings (debug r)) =
       Inr (PInt (sum_list (map amount ts))) \<and>
     py_sum (map (\<lambda>t. PInt (amount t)) ts) = Inr (PInt (sum_list (map amount ts)))"
proof -
  have "py_sum (map PInt (map amount ts)) = Inr (PInt (sum_list (map amount ts)))"
    unfolding py_sum_def sum_from_PInt by simp
  then show ?thesis
    by (simp add: evaluate_discipline_tx_dict sum_list_split comp_def)
qed

text \<open>
  C5 as stated, for every sequence of transactions, fails on float amounts, where each
  addition rounds. On 0.1 food, 0.1 savings, 0.4 rent the evaluation returns
  \<open>total_spend = 0.5\<close> and \<open>total_savings = 0.1\<close>, whose sum is the float 0.6
  (\<^verbatim>\<open>0x3FE3333333333333\<close>); the sum of the three amounts is the float 0.6000000000000001
  (\<^verbatim>\<open>0x3FE3333333333334\<close>), and the exact sum of the three floats is neither.
\<close>

theorem evaluate_discipline_partition_float_counterexample:
  "evaluate_discipline
     [[''amount'' \<mapsto> PNum (PFloat 0x3FB999999999999A), ''category'' \<mapsto> PStr ''food'',
       ''date'' \<mapsto> PStr ''2026-01-05''],
      [''amount'' \<mapsto> PNum (PFloat 0x3FB999999999999A), ''category'' \<mapsto> PStr ''savings'',
       ''date'' \<mapsto> PStr ''2026-01-07''],
      [''amount'' \<mapsto> PNum (PFloat 0x3FD999999999999A), ''category'' \<mapsto> PStr ''rent'',
       ''date'' \<mapsto> PStr ''2026-01-10'']] =
     Inr \<lparr>budget_ok = True, impulse_ok = True, savings_ok = False, discipline_passed = False,
          debug = \<lparr>total_spend = PFloat 0x3FE0000000000000,
                   impulse_spend = PFloat 0x3FB999999999999A,
                   total_savings = PFloat 0x3FB999999999999A\<rparr>\<rparr> \<and>
   num_add (PFloat 0x3FE0000000000000) (PFloat 0x3FB999999999999A) =
     Inr (PFloat 0x3FE3333333333333) \<and>
   py_sum [PFloat 0x3FB999999999999A, PFloat 0x3FB999999999999A, PFloat 0x3FD999999999999A] =
     Inr (PFloat 0x3FE3333333333334) \<and>
   \<not> num_eq (PFloat 0x3FE3333333333333) (PFloat 0x3FE3333333333334) \<and>
   fval 0x3FE3333333333333 \<noteq>
     fval 0x3FB999999999999A + fval 0x3FB999999999999A + fval 0x3FD999999999999A"
  by code_simp

text \<open>
  C9, as amended. On every sequence of transactions whose amounts are non-negative
  integers, \<open>impulse_spend \<le> total_spend\<close> in the result: \<^verbatim>\<open>"savings"\<close> is not an
  impulse category, so an amount added to \<open>impulse_spend\<close> is added to \<open>total_spend\<close>
  too.
\<close>

theorem evaluate_discipline_impulse_le_spend:
  assumes "\<forall>t\<in>set ts. 0 \<le> amount t"
  shows "''savings'' \<notin> IMPULSE_CATEGORIES \<and>
         (\<exists>r. evaluate_discipline (map tx_dict ts) = Inr r \<and>
            num_le (impulse_spend (debug r)) (total_spend (debug r)))"
proof -
  have "''savings'' \<notin> IMPULSE_CATEGORIES"
    by (simp add: IMPULSE_CATEGORIES_def)
  moreover have "\<exists>r. evaluate_discipline (map tx_dict ts) = Inr r \<and>
            num_le (impulse_spend (debug r)) (total_spend (debug r))"
    using impulse_le_spend [OF assms] by (simp add: evaluate_discipline_tx_dict num_le_PInt)
  ultimately show ?thesis by simp
qed

theorem evaluate_discipline_impulse_le_spend_witness:
  "list_all (\<lambda>t. 0 \<le> amount t)
     [\<lparr>amount = 3000, category = ''food'', date = ''2026-01-05''\<rparr>,
      \<lparr>amount = 800, category = ''rent'', date = ''2026-01-06''\<rparr>,
      \<lparr>amount = 5000, category = ''savings'', date = ''2026-01-12''\<rparr>] \<and>
   ''savings'' \<notin> IMPULSE_CATEGORIES \<and>
   (\<exists>r. evaluate_discipline
          (map tx_dict
            [\<lparr>amount = 3000, category = ''food'', date = ''2026-01-05''\<rparr>,
             \<lparr>amount = 800, category = ''rent'', date = ''2026-01-06''\<rparr>,
             \<lparr>amount = 5000, category = ''savings'', date = ''2026-01-12''\<rparr>]) = Inr r \<and>
        num_le (impulse_spend (debug r)) (total_spend (debug r)))"
proof -
  have nonneg: "\<forall>t\<in>set
     [\<lparr>amount = 3000, category = ''food'', date = ''2026-01-05''\<rparr>,
      \<lparr>amount = 800, category = ''rent'', date = ''2026-01-06''\<rparr>,
      \<lparr>amount = 5000, category = ''savings'', date = ''2026-01-12''\<rparr>]. 0 \<le> amount t"
    by simp
  have hyp: "list_all (\<lambda>t. 0 \<le> amount t)
     [\<lparr>amount = 3000, category = ''food'', date = ''2026-01-05''\<rparr>,
      \<lparr>amount = 800, category = ''rent'', date = ''2026-01-06''\<rparr>,
      \<lparr>amount = 5000, category = ''savings'', date = ''2026-01-12''\<rparr>]"
    by simp
  from hyp evaluate_discipline_impulse_le_spend [OF nonneg] show ?thesis
    by (rule conjI)
qed

text \<open>
  C9 as stated, for every list of non-negative amounts, fails when a float meets a large
  int. On 0.5 rent and 9007199254740993 food (\<open>2 ^ 53 + 1\<close>) both amounts are
  non-negative; \<open>total_spend\<close> is \<open>0.5 + 9007199254740993\<close>, a float sum that rounds to
  9007199254740992.0 (\<^verbatim>\<open>0x4340000000000000\<close>), while \<open>impulse_spend\<close> is the int
  9007199254740993: \<open>impulse_spend \<le> total_spend\<close> is false.
\<close>

theorem evaluate_discipline_impulse_float_counterexample:
  "num_le (PInt 0) (PFloat 0x3FE0000000000000) \<and>
   num_le (PInt 0) (PInt 9007199254740993) \<and>
   evaluate_discipline
     [[''amount'' \<mapsto> PNum (PFloat 0x3FE0000000000000), ''category'' \<mapsto> PStr ''rent'',
       ''date'' \<mapsto> PStr ''2026-01-05''],
      [''amount'' \<mapsto> PNum (PInt 9007199254740993), ''category'' \<mapsto> PStr ''food'',
       ''date'' \<mapsto> PStr ''2026-01-07'']] =
     Inr \<lparr>budget_ok = False, impulse_ok = False, savings_ok = False, discipline_passed = False,
          debug = \<lparr>total_spend = PFloat 0x4340000000000000,
                   impulse_spend = PInt 9007199254740993,
                   total_savings = PInt 0\<rparr>\<rparr> \<and>
   \<not> num_le (PInt 9007199254740993) (PFloat 0x4340000000000000) \<and>
   num_lt (PFloat 0x4340000000000000) (PInt 9007199254740993)"
  by code_simp

section \<open>The proof emitter\<close>

text \<open>
  C6. For every discipline result, \<^verbatim>\<open>generate_proof\<close> puts the value of its
  \<open>discipline_passed\<close> into \<open>discipline_valid\<close>. The handler of the proof endpoint
  evaluates the static transactions anew and passes the result to \<^verbatim>\<open>generate_proof\<close>:
  the evaluation returns a result \<open>r\<close>, the handler returns the record that
  \<^verbatim>\<open>generate_proof\<close> makes of \<open>r\<close>, and its \<open>discipline_valid\<close> is the
  \<open>discipline_passed\<close> of \<open>r\<close>.
\<close>

theorem generate_discipline_valid:
  "discipline_valid (generate_proof u now d) = discipline_passed d \<and>
   (\<exists>r p. evaluate_discipline transactions = Inr r \<and>
      generate u now = Inr p \<and> p = generate_proof u now r \<and>
      discipline_valid p = discipline_passed r)"
proof -
  have copy: "discipline_valid (generate_proof u now d) = discipline_passed d" for d
    by (simp add: generate_proof_def)
  have "\<exists>r. evaluate_discipline transactions = Inr r"
    unfolding transactions_tx_dict evaluate_discipline_tx_dict by blast
  then obtain r where r: "evaluate_discipline transactions = Inr r" ..
  then have "generate u now = Inr (generate_proof u now r)"
    by (simp add: generate_def)
  with r copy show ?thesis by simp
qed

text \<open>
  C7. For every input, every value of the random source and every clock reading, the
  \<open>proof_id\<close> of the record is \<^verbatim>\<open>0x\<close> followed by exactly eight characters, each
  one of \<open>0\<close>..\<open>9\<close> or \<open>A\<close>..\<open>F\<close>.
\<close>

theorem generate_proof_id_pattern:
  "matches_proof_id (proof_id (generate_proof u now d))"
  by (simp add: matches_proof_id_def generate_proof_def upper_def take8_uuid_hex
      list_all_iff upper_hexdigit_nth nibble_less del: upt_Suc)

text \<open>
  C10. \<^verbatim>\<open>generate_proof\<close> reads \<open>discipline_passed\<close> only: on two discipline results with
  the same \<open>discipline_passed\<close>, the same random identifier and the same clock reading it
  returns the same record, whatever their \<open>budget_ok\<close>, \<open>impulse_ok\<close>, \<open>savings_ok\<close>
  and \<open>debug\<close>.
\<close>

theorem generate_proof_reads_passed_only:
  assumes "discipline_passed d1 = discipline_passed d2"
  shows "generate_proof u now d1 = generate_proof u now d2"
  using assms by (simp add: generate_proof_def)

theorem generate_proof_reads_passed_only_witness:
  "generate_proof 0x1A2B3C4D000000000000000000000000 ''2026-01-20T10:00:00''
     \<lparr>budget_ok = True, impulse_ok = False, savings_ok = True, discipline_passed = False,
      debug = \<lparr>total_spend = PInt 7700, impulse_spend = PInt 7700,
               total_savings = PInt 5000\<rparr>\<rparr> =
   generate_proof 0x1A2B3C4D000000000000000000000000 ''2026-01-20T10:00:00''
     \<lparr>budget_ok = False, impulse_ok = True, savings_ok = False, discipline_passed = False,
      debug = \<lparr>total_spend = PInt 1, impulse_spend = PInt 2, total_savings = PInt 3\<rparr>\<rparr>"
  by (rule generate_proof_reads_passed_only) simp

end
